theory Spec2Isabelle
  imports Complex_Main "HOL-Library.Log_Nat" "HOL-Library.Sublist"
begin

section \<open>JavaScript numbers\<close>

text \<open>
  The component computes with JavaScript Numbers, which are IEEE 754 binary64 values: every
  arithmetic operation returns the exact result rounded to the nearest value with a 53-bit
  significand, ties going to the even significand. A finite Number is modelled by the rational
  it denotes. The exponent is left unbounded: the operands below are pixel counts and quality
  factors, far from the overflow and subnormal ranges, and no division by zero occurs (the
  only division is by an image width larger than a natural number).
\<close>

definition pow2 :: "int \<Rightarrow> rat" where
  "pow2 e = (if 0 \<le> e then 2 ^ nat e else 1 / 2 ^ nat (- e))"

text \<open>The exponent \<open>e\<close> with \<open>2\<^sup>e \<le> q < 2\<^sup>e\<^sup>+\<^sup>1\<close>, for a positive \<open>q\<close>.\<close>

definition binade :: "rat \<Rightarrow> int" where
  "binade q = (let (a, b) = quotient_of q; e = bitlen a - bitlen b
               in if pow2 e \<le> q then e else e - 1)"

definition round_half_even :: "rat \<Rightarrow> int" where
  "round_half_even x = (let f = \<lfloor>x\<rfloor>; r = x - of_int f
     in if r < 1 / 2 then f else if 1 / 2 < r then f + 1 else if even f then f else f + 1)"

definition round_double :: "rat \<Rightarrow> rat" where
  "round_double q = (if q = 0 then 0 else
     let e = binade \<bar>q\<bar> - 52
     in sgn q * of_int (round_half_even (\<bar>q\<bar> / pow2 e)) * pow2 e)"

text \<open>The operators \<open>*\<close> and \<open>/\<close> of the source, and \<open>Math.floor\<close>.\<close>

definition js_mul :: "rat \<Rightarrow> rat \<Rightarrow> rat" where
  "js_mul x y = round_double (x * y)"

definition js_div :: "rat \<Rightarrow> rat \<Rightarrow> rat" where
  "js_div x y = round_double (x / y)"

definition Math_floor :: "rat \<Rightarrow> int" where
  "Math_floor x = \<lfloor>x\<rfloor>"

text \<open>A decimal literal of the source such as \<open>0.7\<close> denotes the nearest Number.\<close>

definition js_literal :: "rat \<Rightarrow> rat" where
  "js_literal q = round_double q"

text \<open>
  An integer in a template literal is printed in decimal when its magnitude is below
  \<open>10\<^sup>2\<^sup>1\<close>. From there on JavaScript prints a Number with an exponent
  (\<open>1e+21\<close>); that form is left out, and the result is \<open>None\<close>.
\<close>

definition digit_char :: "nat \<Rightarrow> char" where
  "digit_char d = char_of (48 + d)"

fun string_of_nat :: "nat \<Rightarrow> string" where
  "string_of_nat n =
     (if n < 10 then [digit_char n] else string_of_nat (n div 10) @ [digit_char (n mod 10)])"

declare string_of_nat.simps [simp del]

definition js_template_int :: "int \<Rightarrow> string option" where
  "js_template_int i =
     (if \<bar>i\<bar> < 10 ^ 21
      then Some (if i < 0 then CHR ''-'' # string_of_nat (nat (- i)) else string_of_nat (nat i))
      else None)"

section \<open>The host environment\<close>

text \<open>
  A selected \<open>File\<close> object: \<open>fid\<close> stands for its identity (React compares the
  dependencies of an effect with \<open>Object.is\<close>), \<open>ftype\<close> is its MIME type.
\<close>

record js_file =
  fid :: nat
  ftype :: string

type_synonym url = string

text \<open>
  The browser's part: \<open>reader\<close> is what \<open>FileReader.readAsDataURL\<close> delivers to
  \<open>onload\<close> (\<open>None\<close>: \<open>onerror\<close> fires), \<open>decoder\<close> is what loading an
  \<open>Image\<close> from a URL gives, the intrinsic width and height (\<open>None\<close>: \<open>onerror\<close>
  fires).
\<close>

record host =
  reader :: "js_file \<Rightarrow> url option"
  decoder :: "url \<Rightarrow> (nat \<times> nat) option"

text \<open>
  The canvas after \<open>drawImage(img, dx, dy, dw, dh)\<close>, and the value of
  \<open>canvas.toDataURL(type, quality)\<close>, kept as the call that made it.
\<close>

record canvas =
  canvas_width :: nat
  canvas_height :: nat
  canvas_image :: "url \<times> nat \<times> nat \<times> nat \<times> nat"

record data_url =
  url_type :: string
  url_quality :: rat
  url_canvas :: canvas

section \<open>The component\<close>

subsection \<open>compressImage\<close>

text \<open>Lines 21 to 27: the new width and height.\<close>

definition new_size :: "nat \<Rightarrow> nat \<Rightarrow> nat \<Rightarrow> nat \<times> nat" where
  "new_size img_width img_height maxWidth =
     (let newWidth = img_width; newHeight = img_height
      in if newWidth > maxWidth
         then (maxWidth,
               nat (Math_floor (js_mul (of_nat newHeight) (js_div (of_nat maxWidth) (of_nat newWidth)))))
         else (newWidth, newHeight))"

text \<open>The handler \<open>img.onload\<close>, which resolves the promise.\<close>

definition img_onload :: "url \<Rightarrow> nat \<times> nat \<Rightarrow> rat \<Rightarrow> nat \<Rightarrow> data_url" where
  "img_onload imgSrc img quality maxWidth =
     (let (newWidth, newHeight) = new_size (fst img) (snd img) maxWidth;
          cv = \<lparr>canvas_width = newWidth, canvas_height = newHeight,
                canvas_image = (imgSrc, 0, 0, newWidth, newHeight)\<rparr>
      in \<lparr>url_type = ''image/jpeg'', url_quality = quality, url_canvas = cv\<rparr>)"

text \<open>The promise: \<open>Inr\<close> the resolved data URL, \<open>Inl\<close> the message of the rejection.\<close>

definition compressImage :: "host \<Rightarrow> url \<Rightarrow> rat \<Rightarrow> nat \<Rightarrow> string + data_url" where
  "compressImage env imgSrc quality maxWidth =
     (case decoder env imgSrc of
        Some img \<Rightarrow> Inr (img_onload imgSrc img quality maxWidth)
      | None \<Rightarrow> Inl ''Failed to load image for compression.'')"

subsection \<open>State\<close>

record app_state =
  originalFile :: "js_file option"
  originalImageUrl :: "url option"
  compressedImage :: "data_url option"
  loading :: bool
  error :: "string option"
  imageQuality :: rat
  imageDimensions :: nat

definition initial_state :: app_state where
  "initial_state =
     \<lparr>originalFile = None, originalImageUrl = None, compressedImage = None, loading = False,
      error = None, imageQuality = js_literal (7 / 10), imageDimensions = 800\<rparr>"

text \<open>
  What the component asks of the browser, in order. The name of a link is \<open>None\<close> when
  it holds a Number printed with an exponent.
\<close>

record link =
  href :: data_url
  download :: "string option"

datatype effect =
    ReadAsDataURL js_file
  | LoadImage url
  | AppendChild link
  | Click link
  | RemoveChild link

subsection \<open>processImage\<close>

text \<open>
  The effect of lines 45 to 81, followed to the end of its callbacks with no other event in
  between: the file is read, then the image is loaded and compressed, and each callback sets
  the state as the source does. \<open>err.message || "Error during image compression."\<close>
  takes the second string when the message is empty. The steps of the effect one by one, with
  other events between them, come below (\<open>fire\<close>).
\<close>

definition processImage :: "host \<Rightarrow> app_state \<Rightarrow> effect list \<times> app_state" where
  "processImage env s =
     (case originalFile s of
        None \<Rightarrow> ([], s\<lparr>compressedImage := None, originalImageUrl := None\<rparr>)
      | Some f \<Rightarrow>
          let s1 = s\<lparr>error := None, loading := True\<rparr>
          in (case reader env f of
                None \<Rightarrow>
                  ([ReadAsDataURL f],
                   s1\<lparr>error := Some ''Failed to read the file.'', loading := False\<rparr>)
              | Some u \<Rightarrow>
                  let s2 = s1\<lparr>originalImageUrl := Some u\<rparr>
                  in (case compressImage env u (imageQuality s) (imageDimensions s) of
                        Inr compressedUrl \<Rightarrow>
                          ([ReadAsDataURL f, LoadImage u],
                           s2\<lparr>compressedImage := Some compressedUrl, loading := False\<rparr>)
                      | Inl message \<Rightarrow>
                          ([ReadAsDataURL f, LoadImage u],
                           s2\<lparr>error := Some (if message = [] then ''Error during image compression.''
                                              else message),
                              compressedImage := None, loading := False\<rparr>))))"

subsection \<open>Handlers\<close>

text \<open>
  \<open>files0\<close> is \<open>event.target.files[0]\<close>, \<open>None\<close> when the list is empty. The last
  statement of the upload handler resets the input element and sets no state.
\<close>

definition handleImageUpload :: "js_file option \<Rightarrow> app_state \<Rightarrow> app_state" where
  "handleImageUpload files0 s =
     (case files0 of
        None \<Rightarrow> s\<lparr>error := Some ''Please select an image file.'', originalFile := None\<rparr>
      | Some f \<Rightarrow>
          if \<not> prefix ''image/'' (ftype f)
          then s\<lparr>error := Some ''The selected file is not an image. Please upload an image (e.g., JPEG, PNG).'',
                 originalFile := None\<rparr>
          else s\<lparr>error := None, originalFile := Some f\<rparr>)"

definition download_name :: "app_state \<Rightarrow> string option" where
  "download_name s =
     (case (js_template_int (int (imageDimensions s)),
            js_template_int (Math_floor (js_mul (imageQuality s) 100))) of
        (Some w, Some q) \<Rightarrow> Some (''compressed_image_w'' @ w @ ''_q'' @ q @ ''.jpg'')
      | _ \<Rightarrow> None)"

definition handleDownloadCompressed :: "app_state \<Rightarrow> effect list" where
  "handleDownloadCompressed s =
     (case compressedImage s of
        Some c \<Rightarrow>
          let l = \<lparr>href = c, download = download_name s\<rparr>
          in [AppendChild l, Click l, RemoveChild l]
      | None \<Rightarrow> [])"

definition handleQualityChange :: "rat \<Rightarrow> app_state \<Rightarrow> app_state" where
  "handleQualityChange v s = s\<lparr>imageQuality := v\<rparr>"

definition handleDimensionsChange :: "nat \<Rightarrow> app_state \<Rightarrow> app_state" where
  "handleDimensionsChange v s = s\<lparr>imageDimensions := v\<rparr>"

subsection \<open>Events and rendering\<close>

text \<open>
  An event runs its handler; the effect runs afterwards when one of its dependencies
  \<open>[originalFile, imageQuality, imageDimensions, compressImage]\<close> has changed
  (\<open>compressImage\<close> is memoised with no dependencies and never changes). The events of
  the two selectors carry the parsed value (\<open>parseFloat\<close>, \<open>parseInt\<close>).
\<close>

datatype event =
    ImageUpload "js_file option"
  | QualityChange rat
  | DimensionsChange nat
  | DownloadClick

definition deps :: "app_state \<Rightarrow> js_file option \<times> rat \<times> nat" where
  "deps s = (originalFile s, imageQuality s, imageDimensions s)"

definition run_effect :: "host \<Rightarrow> app_state \<Rightarrow> app_state \<Rightarrow> effect list \<times> app_state" where
  "run_effect env s s' = (if deps s' \<noteq> deps s then processImage env s' else ([], s'))"

fun dispatch :: "host \<Rightarrow> event \<Rightarrow> app_state \<Rightarrow> effect list \<times> app_state" where
  "dispatch env (ImageUpload files0) s = run_effect env s (handleImageUpload files0 s)"
| "dispatch env (QualityChange v) s = run_effect env s (handleQualityChange v s)"
| "dispatch env (DimensionsChange v) s = run_effect env s (handleDimensionsChange v s)"
| "dispatch env DownloadClick s = (handleDownloadCompressed s, s)"

text \<open>The component after its first render: the effect runs once, with no file.\<close>

definition mounted :: "host \<Rightarrow> app_state" where
  "mounted env = snd (processImage env initial_state)"

subsection \<open>Callbacks in flight\<close>

text \<open>
  The effect does not wait. It creates a \<open>FileReader\<close> and returns; the reader's
  \<open>onload\<close> sets the preview and creates an \<open>Image\<close>; the image's \<open>onload\<close> or
  \<open>onerror\<close> settles the promise, and the rest of the reader's \<open>onload\<close> stores the
  result. Between these steps other events are handled, the effect has no cleanup, and every
  callback sets the state whatever has happened since. A task is a callback still to come,
  with the quality and the width that its closure took from the render of its effect.
\<close>

datatype task =
    Reading js_file rat nat
  | Loading url rat nat

record component =
  app :: app_state
  pending :: "task list"

text \<open>Lines 47 to 56 and 77: the part of the effect that runs at once.\<close>

definition processImage_start :: "app_state \<Rightarrow> effect list \<times> app_state \<times> task list" where
  "processImage_start s =
     (case originalFile s of
        None \<Rightarrow> ([], s\<lparr>compressedImage := None, originalImageUrl := None\<rparr>, [])
      | Some f \<Rightarrow>
          ([ReadAsDataURL f], s\<lparr>error := None, loading := True\<rparr>,
           [Reading f (imageQuality s) (imageDimensions s)]))"

text \<open>
  The end of the read: \<open>reader.onerror\<close> (lines 72 to 75), or \<open>reader.onload\<close> up to
  its \<open>await\<close> (lines 57 to 62, with lines 14 and 15 of \<open>compressImage\<close>).
\<close>

definition reader_done ::
    "host \<Rightarrow> js_file \<Rightarrow> rat \<Rightarrow> nat \<Rightarrow> app_state \<Rightarrow> effect list \<times> app_state \<times> task list" where
  "reader_done env f quality maxWidth s =
     (case reader env f of
        None \<Rightarrow> ([], s\<lparr>error := Some ''Failed to read the file.'', loading := False\<rparr>, [])
      | Some u \<Rightarrow> ([LoadImage u], s\<lparr>originalImageUrl := Some u\<rparr>, [Loading u quality maxWidth]))"

text \<open>The end of the image load, and the rest of \<open>reader.onload\<close> (lines 63 to 69).\<close>

definition image_done :: "host \<Rightarrow> url \<Rightarrow> rat \<Rightarrow> nat \<Rightarrow> app_state \<Rightarrow> app_state" where
  "image_done env u quality maxWidth s =
     (case compressImage env u quality maxWidth of
        Inr compressedUrl \<Rightarrow> s\<lparr>compressedImage := Some compressedUrl, loading := False\<rparr>
      | Inl message \<Rightarrow>
          s\<lparr>error := Some (if message = [] then ''Error during image compression.'' else message),
            compressedImage := None, loading := False\<rparr>)"

fun handle :: "event \<Rightarrow> app_state \<Rightarrow> effect list \<times> app_state" where
  "handle (ImageUpload files0) s = ([], handleImageUpload files0 s)"
| "handle (QualityChange v) s = ([], handleQualityChange v s)"
| "handle (DimensionsChange v) s = ([], handleDimensionsChange v s)"
| "handle DownloadClick s = (handleDownloadCompressed s, s)"

text \<open>
  What happens next is an event of the user, or the end of one of the tasks in flight, in
  any order (\<open>Complete i\<close> ends the task at position \<open>i\<close>, and is nothing when there is
  none). The dependencies of the effect are compared after the handler; callbacks set none
  of them.
\<close>

datatype action = User event | Complete nat

fun fire :: "host \<Rightarrow> action \<Rightarrow> component \<Rightarrow> effect list \<times> component" where
  "fire env (User e) t =
     (let (es, s') = handle e (app t)
      in if deps s' \<noteq> deps (app t)
         then (let (es', s'', ts) = processImage_start s'
               in (es @ es', \<lparr>app = s'', pending = pending t @ ts\<rparr>))
         else (es, \<lparr>app = s', pending = pending t\<rparr>))"
| "fire env (Complete i) t =
     (if i < length (pending t)
      then (let rest = take i (pending t) @ drop (Suc i) (pending t)
            in case pending t ! i of
                 Reading f q d \<Rightarrow>
                   (let (es, s', ts) = reader_done env f q d (app t)
                    in (es, \<lparr>app = s', pending = rest @ ts\<rparr>))
               | Loading u q d \<Rightarrow>
                   ([], \<lparr>app = image_done env u q d (app t), pending = rest\<rparr>))
      else ([], t))"

fun exec :: "host \<Rightarrow> component \<Rightarrow> action list \<Rightarrow> component" where
  "exec env t [] = t"
| "exec env t (a # as) = exec env (snd (fire env a t)) as"

definition boot :: "host \<Rightarrow> component" where
  "boot env = \<lparr>app = mounted env, pending = []\<rparr>"

text \<open>
  Two browsers for the examples: in the first every read succeeds and every image decodes to
  300 by 200 pixels; in the second only the file with identity 1 can be read.
\<close>

definition host_reads_all :: host where
  "host_reads_all = \<lparr>reader = \<lambda>f. Some ''data:a'', decoder = \<lambda>u. Some (300, 200)\<rparr>"

definition host_reads_first :: host where
  "host_reads_first =
     \<lparr>reader = \<lambda>f. if fid f = 1 then Some ''data:a'' else None, decoder = \<lambda>u. Some (300, 200)\<rparr>"


subsection \<open>The selectors\<close>

text \<open>Lines 211 to 220 and 232 to 236: the value and the label of each option.\<close>

definition quality_options :: "(rat \<times> string) list" where
  "quality_options =
     [(js_literal 1, ''100%''), (js_literal (9 / 10), ''90%''), (js_literal (8 / 10), ''80%''),
      (js_literal (7 / 10), ''70% (Default)''), (js_literal (6 / 10), ''60%''),
      (js_literal (5 / 10), ''50%''), (js_literal (4 / 10), ''40%''),
      (js_literal (3 / 10), ''30%''), (js_literal (2 / 10), ''20%''),
      (js_literal (1 / 10), ''10%'')]"

text \<open>The decimal literals of the quality values, as written in the source.\<close>

definition quality_decimals :: "rat list" where
  "quality_decimals = [1, 9 / 10, 8 / 10, 7 / 10, 6 / 10, 5 / 10, 4 / 10, 3 / 10, 2 / 10, 1 / 10]"

definition dimension_options :: "(nat \<times> string) list" where
  "dimension_options =
     [(400, ''400px''), (800, ''800px (Default)''), (1200, ''1200px''), (1600, ''1600px''),
      (2000, ''2000px'')]"

section \<open>Properties\<close>

subsection \<open>Rounding\<close>

text \<open>
  The rounding of a positive number moves it by at most one part in \<open>2\<^sup>5\<^sup>3\<close>, half a unit
  in the last place of its binade.
\<close>

lemma pow2_powi: "pow2 e = 2 powi e"
  by (simp add: pow2_def power_int_def power_inverse [symmetric] inverse_eq_divide power_one_over)

lemma pow2_pos: "0 < pow2 e"
  by (simp add: pow2_powi)

lemma pow2_add: "pow2 (a + b) = pow2 a * pow2 b"
  by (simp add: pow2_powi power_int_add)

lemma pow2_nat: "pow2 (int n) = 2 ^ n"
  by (simp add: pow2_def)

lemma binade_bounds:
  assumes "0 < q"
  shows "pow2 (binade q) \<le> q \<and> q < pow2 (binade q + 1)"
proof -
  obtain a b where ab: "quotient_of q = (a, b)"
    by (cases "quotient_of q")
  have b: "0 < b"
    using ab by (rule quotient_of_denom_pos)
  have q: "q = of_int a / of_int b"
    using ab by (rule quotient_of_div)
  have a: "0 < a"
    using assms b unfolding q by (simp add: zero_less_divide_iff)
  define la where "la = bitlen a"
  define lb where "lb = bitlen b"
  have la: "1 \<le> la" and lb: "1 \<le> lb"
    using a b by (simp_all add: la_def lb_def bitlen_alt_def)
  have ba: "2 ^ nat (la - 1) \<le> a" "a < 2 ^ nat la"
    using bitlen_bounds [OF a] by (simp_all add: la_def)
  have bb: "2 ^ nat (lb - 1) \<le> b" "b < 2 ^ nat lb"
    using bitlen_bounds [OF b] by (simp_all add: lb_def)
  have ra: "pow2 (la - 1) \<le> of_int a" "(of_int a :: rat) < pow2 la"
  proof -
    have "(of_int (2 ^ nat (la - 1)) :: rat) \<le> of_int a"
      using ba(1) by (simp only: of_int_le_iff)
    then show "pow2 (la - 1) \<le> of_int a"
      using la by (simp add: pow2_def)
    have "(of_int a :: rat) < of_int (2 ^ nat la)"
      using ba(2) by (simp only: of_int_less_iff)
    then show "(of_int a :: rat) < pow2 la"
      using la by (simp add: pow2_def)
  qed
  have rb: "pow2 (lb - 1) \<le> of_int b" "(of_int b :: rat) < pow2 lb"
  proof -
    have "(of_int (2 ^ nat (lb - 1)) :: rat) \<le> of_int b"
      using bb(1) by (simp only: of_int_le_iff)
    then show "pow2 (lb - 1) \<le> of_int b"
      using lb by (simp add: pow2_def)
    have "(of_int b :: rat) < of_int (2 ^ nat lb)"
      using bb(2) by (simp only: of_int_less_iff)
    then show "(of_int b :: rat) < pow2 lb"
      using lb by (simp add: pow2_def)
  qed
  have bpos: "(0 :: rat) < of_int b"
    using b by simp
  have up: "q < pow2 (la - lb + 1)"
  proof -
    have "of_int a < pow2 (la - lb + 1) * pow2 (lb - 1)"
      using ra(2) by (simp add: pow2_add [symmetric])
    also have "\<dots> \<le> pow2 (la - lb + 1) * of_int b"
      using rb(1) pow2_pos [of "la - lb + 1"] by (simp add: mult_left_mono)
    finally show ?thesis
      unfolding q using bpos by (simp add: pos_divide_less_eq)
  qed
  have low: "pow2 (la - lb - 1) \<le> q"
  proof -
    have "pow2 (la - lb - 1) * of_int b \<le> pow2 (la - lb - 1) * pow2 lb"
      using rb(2) pow2_pos [of "la - lb - 1"] by (simp add: mult_left_mono)
    also have "\<dots> = pow2 (la - 1)"
      by (simp add: pow2_add [symmetric])
    also have "\<dots> \<le> of_int a"
      by (rule ra(1))
    finally show ?thesis
      unfolding q using bpos by (simp add: pos_le_divide_eq)
  qed
  show ?thesis
  proof (cases "pow2 (la - lb) \<le> q")
    case True
    then have "binade q = la - lb"
      by (simp add: binade_def ab la_def lb_def)
    with True up show ?thesis by simp
  next
    case False
    then have "binade q = la - lb - 1"
      by (simp add: binade_def ab la_def lb_def)
    with False low show ?thesis by simp
  qed
qed

lemma round_half_even_error: "\<bar>of_int (round_half_even x) - x\<bar> \<le> 1 / 2"
proof -
  have "of_int \<lfloor>x\<rfloor> \<le> x" "x < of_int \<lfloor>x\<rfloor> + 1"
    by linarith+
  then show ?thesis
    by (auto simp add: round_half_even_def Let_def)
qed

lemma round_double_error:
  assumes "0 < q"
  shows "\<bar>round_double q - q\<bar> \<le> q / 2 ^ 53"
proof -
  define e where "e = binade \<bar>q\<bar> - 52"
  define m where "m = round_half_even (\<bar>q\<bar> / pow2 e)"
  have aq: "\<bar>q\<bar> = q"
    using assms by simp
  have r: "round_double q = of_int m * pow2 e"
    using assms by (simp add: round_double_def Let_def e_def m_def)
  have "\<bar>of_int m - q / pow2 e\<bar> \<le> 1 / 2"
    unfolding m_def aq by (rule round_half_even_error)
  then have "\<bar>of_int m - q / pow2 e\<bar> * pow2 e \<le> 1 / 2 * pow2 e"
    using pow2_pos [of e] by (simp add: mult_right_mono)
  moreover have "\<bar>of_int m - q / pow2 e\<bar> * pow2 e = \<bar>of_int m * pow2 e - q\<bar>"
  proof -
    have "\<bar>of_int m - q / pow2 e\<bar> * pow2 e = \<bar>(of_int m - q / pow2 e) * pow2 e\<bar>"
      using pow2_pos [of e] by (simp add: abs_mult)
    also have "(of_int m - q / pow2 e) * pow2 e = of_int m * pow2 e - q"
      using pow2_pos [of e] by (simp add: left_diff_distrib)
    finally show ?thesis .
  qed
  ultimately have 1: "\<bar>round_double q - q\<bar> \<le> pow2 e / 2"
    unfolding r by simp
  have "pow2 (e + 52) \<le> q"
    using binade_bounds [OF assms] by (simp add: e_def aq)
  moreover have "pow2 (e + 52) = pow2 e * pow2 52"
    by (rule pow2_add)
  moreover have "pow2 52 = 2 ^ 52"
    using pow2_nat [of 52] by simp
  ultimately have "pow2 e * 2 ^ 52 \<le> q"
    by simp
  then have "pow2 e / 2 \<le> q / 2 ^ 53"
    by (simp add: field_simps)
  with 1 show ?thesis by linarith
qed

lemma round_double_zero: "round_double 0 = 0"
  by (simp add: round_double_def)

lemma js_height_error:
  assumes "0 < m" and "0 < h" and "0 < w"
  shows "\<bar>js_mul (of_nat h) (js_div (of_nat m) (of_nat w)) - of_nat (h * m) / of_nat w\<bar>
           \<le> (of_nat (h * m) / of_nat w) * (3 / 2 ^ 53)"
proof -
  define x :: rat where "x = of_nat m / of_nat w"
  define r where "r = round_double x"
  define y where "y = of_nat h * r"
  define c where "c = round_double y"
  define u :: rat where "u = 1 / 2 ^ 53"
  have hp: "(0 :: rat) < of_nat h"
    using assms by simp
  have x: "0 < x"
    using assms by (simp add: x_def)
  have 1: "\<bar>r - x\<bar> \<le> x * u"
    using round_double_error [OF x] by (simp add: r_def u_def)
  have u: "0 < u" "u \<le> 1 / 2"
    by (simp_all add: u_def)
  have rp: "0 < r"
  proof -
    have "x * u \<le> x * (1 / 2)"
      using x u(2) by (simp only: mult_left_mono less_imp_le)
    with 1 x show ?thesis by linarith
  qed
  have yp: "0 < y"
    using rp hp by (simp add: y_def)
  have 2: "\<bar>c - y\<bar> \<le> y * u"
    using round_double_error [OF yp] by (simp add: c_def u_def)
  have 3: "\<bar>y - of_nat h * x\<bar> \<le> of_nat h * x * u"
  proof -
    have "\<bar>y - of_nat h * x\<bar> = of_nat h * \<bar>r - x\<bar>"
      using hp by (simp add: y_def right_diff_distrib [symmetric] abs_mult)
    also have "\<dots> \<le> of_nat h * (x * u)"
      using 1 hp by (simp only: mult_left_mono less_imp_le)
    finally show ?thesis by (simp add: mult.assoc)
  qed
  define q :: rat where "q = of_nat h * x"
  have qp: "0 < q"
    using hp x by (simp add: q_def)
  have e3: "\<bar>y - q\<bar> \<le> q * u"
    using 3 by (simp add: q_def)
  have "y \<le> q + q * u"
    using e3 by (simp add: abs_le_iff)
  also have "\<dots> \<le> q * 2"
    using qp u(2) by (simp add: field_simps)
  finally have "y * u \<le> q * 2 * u"
    using u(1) by (simp only: mult_right_mono less_imp_le)
  with 2 have 4: "\<bar>c - y\<bar> \<le> q * 2 * u"
    by linarith
  have "\<bar>c - q\<bar> \<le> \<bar>c - y\<bar> + \<bar>y - q\<bar>"
    by linarith
  with 4 e3 have "\<bar>c - q\<bar> \<le> q * (3 * u)"
    by (simp add: algebra_simps)
  moreover have "q = of_nat (h * m) / of_nat w"
    by (simp add: q_def x_def)
  moreover have "c = js_mul (of_nat h) (js_div (of_nat m) (of_nat w))"
    by (simp add: c_def y_def r_def x_def js_mul_def js_div_def)
  ultimately show ?thesis
    by (simp add: u_def)
qed

subsection \<open>Dimensions\<close>

lemma new_size_wide: "maxWidth < w \<Longrightarrow> fst (new_size w h maxWidth) = maxWidth"
  by (simp add: new_size_def)

lemma new_size_narrow: "w \<le> maxWidth \<Longrightarrow> new_size w h maxWidth = (w, h)"
  by (simp add: new_size_def)

lemma new_size_width_le: "fst (new_size w h maxWidth) \<le> maxWidth"
  by (simp add: new_size_def)

text \<open>
  The height of a scaled image, for products \<open>h * maxWidth\<close> below \<open>2\<^sup>5\<^sup>1\<close>: it is
  \<open>floor(h * maxWidth / w)\<close> whenever \<open>w\<close> does not divide \<open>h * maxWidth\<close>; when it
  does, the two roundings may leave the product just below the integer quotient, and the
  height is then one less.
\<close>

lemma new_size_height:
  assumes "maxWidth < w" and "h * maxWidth < 2 ^ 51"
  shows "snd (new_size w h maxWidth) = h * maxWidth div w
       \<or> (w dvd h * maxWidth \<and> Suc (snd (new_size w h maxWidth)) = h * maxWidth div w)"
proof (cases "h = 0 \<or> maxWidth = 0")
  case True
  then have "js_mul (of_nat h) (js_div (of_nat maxWidth) (of_nat w)) = 0"
    by (auto simp add: js_mul_def js_div_def round_double_zero)
  with True assms(1) show ?thesis
    by (auto simp add: new_size_def Math_floor_def)
next
  case False
  then have pos: "0 < maxWidth" "0 < h" "0 < w"
    using assms(1) by simp_all
  define N where "N = h * maxWidth"
  define n where "n = N div w"
  define r where "r = N mod w"
  define q :: rat where "q = of_nat N / of_nat w"
  define c where "c = js_mul (of_nat h) (js_div (of_nat maxWidth) (of_nat w))"
  have wp: "(0 :: rat) < of_nat w"
    using pos by simp
  have Np: "0 < N"
    using pos by (simp add: N_def)
  have "\<bar>c - q\<bar> \<le> q * (3 / 2 ^ 53)"
    unfolding c_def q_def N_def by (rule js_height_error [OF pos])
  moreover have "q * (3 / 2 ^ 53) < 1 / of_nat w"
  proof -
    have "(of_nat N :: rat) < of_nat (2 ^ 51)"
      using assms(2) unfolding N_def by (simp only: of_nat_less_iff)
    then have "(of_nat N :: rat) * 3 < 2 ^ 53"
      by simp
    then show ?thesis
      using wp by (simp add: q_def field_simps)
  qed
  ultimately have near: "q - 1 / of_nat w < c" "c < q + 1 / of_nat w"
    by linarith+
  have "N = n * w + r"
    by (simp add: n_def r_def)
  then have "(of_nat N :: rat) = of_nat n * of_nat w + of_nat r"
    by (simp only: of_nat_add of_nat_mult)
  then have q: "q = of_nat n + of_nat r / of_nat w"
    using wp by (simp add: q_def field_simps)
  have rw: "r < w"
    using pos by (simp add: r_def)
  have size: "snd (new_size w h maxWidth) = nat \<lfloor>c\<rfloor>"
    using assms(1) by (simp add: new_size_def Math_floor_def c_def)
  have one: "1 / of_nat w \<le> (1 :: rat)"
    using pos by (simp add: field_simps)
  show ?thesis
  proof (cases "r = 0")
    case True
    then have dvd: "w dvd h * maxWidth"
      by (simp add: r_def N_def dvd_eq_mod_eq_0)
    have qn: "q = of_nat n"
      using q True by simp
    have "0 < n"
      using Np True \<open>N = n * w + r\<close> by (cases n) simp_all
    have "of_int (int n - 1) \<le> c" "c < of_int (int n) + 1"
      using near one by (simp_all add: qn)
    then have "\<lfloor>c\<rfloor> = int n - 1 \<or> \<lfloor>c\<rfloor> = int n"
      by (simp add: floor_eq_iff) linarith
    with \<open>0 < n\<close> have "nat \<lfloor>c\<rfloor> = n \<or> Suc (nat \<lfloor>c\<rfloor>) = n"
      by auto
    with dvd show ?thesis
      unfolding size by (auto simp add: n_def N_def)
  next
    case False
    then have "(1 :: rat) \<le> of_nat r" "(of_nat r :: rat) + 1 \<le> of_nat w"
      using rw by (simp_all add: of_nat_Suc [symmetric] del: of_nat_Suc)
    then have "1 / of_nat w \<le> (of_nat r :: rat) / of_nat w"
      "(of_nat r :: rat) / of_nat w + 1 / of_nat w \<le> 1"
      using wp by (simp_all add: field_simps)
    with near have "of_int (int n) \<le> c" "c < of_int (int n) + 1"
      by (simp_all add: q)
    then have "\<lfloor>c\<rfloor> = int n"
      by (rule floor_unique)
    then show ?thesis
      unfolding size by (simp add: n_def N_def)
  qed
qed

text \<open>The scenario of 1600 by 1200 pixels at a width of 800: the quotient 1/2 is exact.\<close>

lemma height_1200: "Math_floor (js_mul 1200 (js_div 800 1600)) = 600"
  by code_simp

lemma scenario_1600_1200: "new_size 1600 1200 800 = (800, 600)"
  using height_1200 by (simp add: new_size_def)

lemma scenario_300_200: "new_size 300 200 800 = (300, 200)"
  by (simp add: new_size_def)

text \<open>
  C2. An image that decodes with a width of at most \<open>maxWidth\<close> is drawn at its own size:
  the promise resolves, and the canvas has the width and the height of the image.
\<close>

theorem C2_no_upscaling:
  assumes "decoder env u = Some (w, h)" and "w \<le> maxWidth"
  shows "\<exists>c. compressImage env u q maxWidth = Inr c
             \<and> canvas_width (url_canvas c) = w \<and> canvas_height (url_canvas c) = h
             \<and> canvas_image (url_canvas c) = (u, 0, 0, w, h)"
  using assms by (simp add: compressImage_def img_onload_def new_size_narrow)

theorem C2_no_upscaling_witness:
  "\<exists>c. compressImage \<lparr>reader = \<lambda>f. None, decoder = \<lambda>u. Some (300, 200)\<rparr> ''data:a'' (1 / 2) 800 = Inr c
       \<and> canvas_width (url_canvas c) = 300 \<and> canvas_height (url_canvas c) = 200
       \<and> canvas_image (url_canvas c) = (''data:a'', 0, 0, 300, 200)"
  using C2_no_upscaling [of "\<lparr>reader = \<lambda>f. None, decoder = \<lambda>u. Some (300, 200)\<rparr>" "''data:a''" 300 200 800 "1 / 2"]
  by simp

subsection \<open>Errors\<close>

lemma processImage_no_file:
  "originalFile s = None \<Longrightarrow>
     processImage env s = ([], s\<lparr>compressedImage := None, originalImageUrl := None\<rparr>)"
  by (simp add: processImage_def)

text \<open>
  C6. A selected file whose type does not start with \<open>image/\<close> gets the message of the
  upload handler, and nothing is asked of the browser: the file is not read and no image is
  loaded, from any state.
\<close>

theorem C6_not_an_image:
  assumes "\<not> prefix ''image/'' (ftype f)"
  shows "fst (dispatch env (ImageUpload (Some f)) s) = []
       \<and> error (snd (dispatch env (ImageUpload (Some f)) s))
           = Some ''The selected file is not an image. Please upload an image (e.g., JPEG, PNG).''
       \<and> originalFile (snd (dispatch env (ImageUpload (Some f)) s)) = None"
  using assms by (simp add: run_effect_def handleImageUpload_def processImage_no_file)

theorem C6_not_an_image_witness:
  "\<not> prefix ''image/'' (ftype \<lparr>fid = 1, ftype = ''text/plain''\<rparr>)
   \<and> fst (dispatch \<lparr>reader = \<lambda>f. Some ''data:a'', decoder = \<lambda>u. Some (300, 200)\<rparr>
             (ImageUpload (Some \<lparr>fid = 1, ftype = ''text/plain''\<rparr>)) initial_state) = []
   \<and> error (snd (dispatch \<lparr>reader = \<lambda>f. Some ''data:a'', decoder = \<lambda>u. Some (300, 200)\<rparr>
             (ImageUpload (Some \<lparr>fid = 1, ftype = ''text/plain''\<rparr>)) initial_state))
       = Some ''The selected file is not an image. Please upload an image (e.g., JPEG, PNG).''"
proof -
  have h: "\<not> prefix ''image/'' (ftype \<lparr>fid = 1, ftype = ''text/plain''\<rparr>)"
    by simp
  show ?thesis
    using h C6_not_an_image [OF h, of "\<lparr>reader = \<lambda>f. Some ''data:a'', decoder = \<lambda>u. Some (300, 200)\<rparr>" initial_state]
    by simp
qed

text \<open>
  C5. A file of an image type that is read but that the decoder rejects: the promise of
  \<open>compressImage\<close> rejects, and the upload leaves the message of the rejection in
  \<open>error\<close> and no compressed image. The file object is a new one, as every change event
  delivers.
\<close>

theorem C5_decode_error:
  assumes "prefix ''image/'' (ftype f)" and "reader env f = Some u" and "decoder env u = None"
    and "originalFile s \<noteq> Some f"
  shows "compressImage env u (imageQuality s) (imageDimensions s)
           = Inl ''Failed to load image for compression.''
       \<and> error (snd (dispatch env (ImageUpload (Some f)) s))
           = Some ''Failed to load image for compression.''
       \<and> compressedImage (snd (dispatch env (ImageUpload (Some f)) s)) = None
       \<and> loading (snd (dispatch env (ImageUpload (Some f)) s)) = False"
  using assms
  by (simp add: run_effect_def handleImageUpload_def deps_def processImage_def compressImage_def)

theorem C5_decode_error_witness:
  "compressedImage (snd (dispatch \<lparr>reader = \<lambda>f. Some ''data:a'', decoder = \<lambda>u. None\<rparr>
       (ImageUpload (Some \<lparr>fid = 1, ftype = ''image/png''\<rparr>)) initial_state)) = None
   \<and> error (snd (dispatch \<lparr>reader = \<lambda>f. Some ''data:a'', decoder = \<lambda>u. None\<rparr>
       (ImageUpload (Some \<lparr>fid = 1, ftype = ''image/png''\<rparr>)) initial_state))
       = Some ''Failed to load image for compression.''"
proof -
  have h1: "prefix ''image/'' (ftype \<lparr>fid = 1, ftype = ''image/png''\<rparr>)"
    by simp
  have h2: "reader \<lparr>reader = \<lambda>f. Some ''data:a'', decoder = \<lambda>u. None\<rparr> \<lparr>fid = 1, ftype = ''image/png''\<rparr>
              = Some ''data:a''"
    by simp
  have h3: "decoder \<lparr>reader = \<lambda>f. Some ''data:a'', decoder = \<lambda>u. None\<rparr> ''data:a'' = None"
    by simp
  have h4: "originalFile initial_state \<noteq> Some \<lparr>fid = 1, ftype = ''image/png''\<rparr>"
    by (simp add: initial_state_def)
  show ?thesis
    using C5_decode_error [OF h1 h2 h3 h4] by simp
qed

subsection \<open>Download\<close>

text \<open>
  C10. With no compressed image, a click on the download button asks nothing of the browser
  (no link is appended, clicked or removed) and leaves the whole state as it was.
\<close>

theorem C10_download_without_image:
  assumes "compressedImage s = None"
  shows "handleDownloadCompressed s = [] \<and> dispatch env DownloadClick s = ([], s)"
  using assms by (simp add: handleDownloadCompressed_def)

theorem C10_download_without_image_witness:
  "compressedImage initial_state = None
   \<and> handleDownloadCompressed initial_state = []
   \<and> dispatch \<lparr>reader = \<lambda>f. None, decoder = \<lambda>u. None\<rparr> DownloadClick initial_state
       = ([], initial_state)"
proof -
  have h: "compressedImage initial_state = None"
    by (simp add: initial_state_def)
  show ?thesis
    using h C10_download_without_image [OF h, of "\<lparr>reader = \<lambda>f. None, decoder = \<lambda>u. None\<rparr>"]
    by simp
qed

subsection \<open>Schedules\<close>


lemma dispatch_fire:
  assumes "pending t = []"
  shows "dispatch env e (app t)
           = (fst (fire env (User e) t)
                @ fst (fire env (Complete 0) (snd (fire env (User e) t)))
                @ fst (fire env (Complete 0) (snd (fire env (Complete 0) (snd (fire env (User e) t))))),
              app (exec env t [User e, Complete 0, Complete 0]))
       \<and> pending (exec env t [User e, Complete 0, Complete 0]) = []"
  using assms
  by (cases e)
    (auto simp add: run_effect_def processImage_def processImage_start_def reader_done_def
      image_done_def Let_def split: option.splits sum.splits)





subsection \<open>No file selected\<close>

text \<open>
  C9, as amended. A change event with an empty file list, in any state and with any tasks in
  flight: the handler leaves the message \<open>Please select an image file.\<close> and no source
  file, asks nothing of the browser and starts no task. When a file was selected before, the
  effect runs and resets the preview and the compressed image; when none was selected, the
  dependencies have not changed, the effect does not run, and both stay as they were.
\<close>

theorem C9_empty_file_list:
  "fst (fire env (User (ImageUpload None)) t) = []
   \<and> pending (snd (fire env (User (ImageUpload None)) t)) = pending t
   \<and> error (app (snd (fire env (User (ImageUpload None)) t))) = Some ''Please select an image file.''
   \<and> originalFile (app (snd (fire env (User (ImageUpload None)) t))) = None
   \<and> originalImageUrl (app (snd (fire env (User (ImageUpload None)) t)))
       = (if originalFile (app t) = None then originalImageUrl (app t) else None)
   \<and> compressedImage (app (snd (fire env (User (ImageUpload None)) t)))
       = (if originalFile (app t) = None then compressedImage (app t) else None)"
  by (simp add: handleImageUpload_def deps_def processImage_start_def)

text \<open>
  C9 as first stated promises an empty preview and no compressed image after every such
  event. They are not empty here: an image is selected and, while it is being read, the
  selection is cleared; the read and the compression of the first run end afterwards and store
  their results; a further change event with an empty list finds no file selected, so the
  effect does not run, and the image and the preview stay beside the message.
\<close>

theorem C9_stale_image_stays:
  "app (exec host_reads_all (boot host_reads_all)
          [User (ImageUpload (Some \<lparr>fid = 1, ftype = ''image/png''\<rparr>)),
           User (ImageUpload None),
           Complete 0,
           Complete 0,
           User (ImageUpload None)])
   = \<lparr>originalFile = None,
      originalImageUrl = Some ''data:a'',
      compressedImage = Some \<lparr>url_type = ''image/jpeg'', url_quality = js_literal (7 / 10),
        url_canvas = \<lparr>canvas_width = 300, canvas_height = 200,
                       canvas_image = (''data:a'', 0, 0, 300, 200)\<rparr>\<rparr>,
      loading = False,
      error = Some ''Please select an image file.'',
      imageQuality = js_literal (7 / 10),
      imageDimensions = 800\<rparr>"
  by (simp add: host_reads_all_def boot_def mounted_def initial_state_def processImage_def
      processImage_start_def reader_done_def image_done_def deps_def handleImageUpload_def
      compressImage_def img_onload_def new_size_def)

subsection \<open>The selectors and the file name\<close>


lemma quality_options_values: "map fst quality_options = map js_literal quality_decimals"
  by (simp add: quality_options_def quality_decimals_def)

text \<open>
  C8. The quality selector has the ten options 100 percent down to 10 percent (the values 1.0 down to
  0.1, in this order), the state starts at 0.7, the option labelled as the default; the width
  selector has the options 400, 800, 1200, 1600 and 2000, and the state starts at 800, the
  option labelled as the default.
\<close>

theorem C8_selector_options:
  "map fst quality_options = map js_literal [1, 9 / 10, 8 / 10, 7 / 10, 6 / 10, 5 / 10, 4 / 10, 3 / 10, 2 / 10, 1 / 10]
   \<and> map (\<lambda>r. \<lfloor>r * 100\<rfloor>) quality_decimals = [100, 90, 80, 70, 60, 50, 40, 30, 20, 10]
   \<and> map snd quality_options
       = [''100%'', ''90%'', ''80%'', ''70% (Default)'', ''60%'', ''50%'', ''40%'', ''30%'', ''20%'', ''10%'']
   \<and> imageQuality initial_state = js_literal (7 / 10)
   \<and> (imageQuality initial_state, ''70% (Default)'') \<in> set quality_options
   \<and> map fst dimension_options = [400, 800, 1200, 1600, 2000]
   \<and> map snd dimension_options = [''400px'', ''800px (Default)'', ''1200px'', ''1600px'', ''2000px'']
   \<and> imageDimensions initial_state = 800
   \<and> (imageDimensions initial_state, ''800px (Default)'') \<in> set dimension_options"
  by (simp add: quality_options_def quality_decimals_def dimension_options_def initial_state_def)













subsection \<open>Where the source departs from its description\<close>

lemma height_1220: "Math_floor (js_mul 1220 (js_div 800 1220)) = 799"
  by code_simp

lemma height_780: "Math_floor (js_mul 780 (js_div 800 1560)) = 399"
  by code_simp

text \<open>
  C1 says that an image wider than \<open>maxWidth\<close> comes out with the width \<open>maxWidth\<close> and
  the height \<open>floor(h * maxWidth / w)\<close>. The source does not do so for a square image of
  1220 by 1220 pixels, compressed with the default \<open>maxWidth\<close> of 800: the width is 800,
  the height is 799, and not \<open>floor(1220 * 800 / 1220) = 800\<close>. The quotient
  \<open>800 / 1220\<close> is rounded to a Number below 40/61 before it is multiplied by the height,
  the product is rounded to a Number just below 800, and \<open>Math.floor\<close> takes it down to
  799.
\<close>

theorem C1_height_one_short:
  "\<exists>c. compressImage \<lparr>reader = \<lambda>f. None, decoder = \<lambda>u. Some (1220, 1220)\<rparr> ''data:a''
          (js_literal (7 / 10)) 800 = Inr c
       \<and> canvas_width (url_canvas c) = 800
       \<and> canvas_height (url_canvas c) = 799
       \<and> \<lfloor>1220 * 800 / 1220 :: rat\<rfloor> = 800"
  using height_1220 by (simp add: compressImage_def img_onload_def new_size_def)

text \<open>
  C3 says that the width is at most \<open>maxWidth\<close> and that the ratio of width to height is
  that of the source, up to the rounding of the scaled height to an integer. The width is
  within \<open>maxWidth\<close> (\<open>new_size_width_le\<close>); the ratio is not kept for an image of 1560
  by 780 pixels (2 to 1), compressed with the default \<open>maxWidth\<close> of 800: the scaled
  height \<open>780 * 800 / 1560\<close> is the integer 400 and needs no rounding, but the canvas is
  800 by 399, a full pixel away.
\<close>

theorem C3_ratio_not_kept:
  "\<exists>c. compressImage \<lparr>reader = \<lambda>f. None, decoder = \<lambda>u. Some (1560, 780)\<rparr> ''data:a''
          (js_literal (7 / 10)) 800 = Inr c
       \<and> canvas_width (url_canvas c) = 800
       \<and> canvas_height (url_canvas c) = 399
       \<and> (780 * 800 / 1560 :: rat) = 400
       \<and> \<not> \<bar>of_nat (canvas_height (url_canvas c)) - (780 * 800 / 1560 :: rat)\<bar> < 1"
  using height_780 by (simp add: compressImage_def img_onload_def new_size_def)

text \<open>
  C4 says that every kind of error resets the compressed image. A failed read does not: a
  first image is read and compressed; a second file of an image type is selected, and
  reading it fails. \<open>reader.onerror\<close> sets the message and ends the loading, and nothing
  else: the compressed image and the preview of the first file stay, beside the message. The
  handler of a decoding error, next to it, does reset the compressed image. The state is
  given step by step, each callback after its event, and by the two effects followed to
  their ends.
\<close>

theorem C4_read_error_keeps_image:
  "app (exec host_reads_first (boot host_reads_first)
          [User (ImageUpload (Some \<lparr>fid = 1, ftype = ''image/png''\<rparr>)),
           Complete 0,
           Complete 0,
           User (ImageUpload (Some \<lparr>fid = 2, ftype = ''image/png''\<rparr>)),
           Complete 0])
   = \<lparr>originalFile = Some \<lparr>fid = 2, ftype = ''image/png''\<rparr>,
      originalImageUrl = Some ''data:a'',
      compressedImage = Some \<lparr>url_type = ''image/jpeg'', url_quality = js_literal (7 / 10),
        url_canvas = \<lparr>canvas_width = 300, canvas_height = 200,
                       canvas_image = (''data:a'', 0, 0, 300, 200)\<rparr>\<rparr>,
      loading = False,
      error = Some ''Failed to read the file.'',
      imageQuality = js_literal (7 / 10),
      imageDimensions = 800\<rparr>
   \<and> snd (dispatch host_reads_first (ImageUpload (Some \<lparr>fid = 2, ftype = ''image/png''\<rparr>))
          (snd (dispatch host_reads_first (ImageUpload (Some \<lparr>fid = 1, ftype = ''image/png''\<rparr>))
                 (mounted host_reads_first))))
   = \<lparr>originalFile = Some \<lparr>fid = 2, ftype = ''image/png''\<rparr>,
      originalImageUrl = Some ''data:a'',
      compressedImage = Some \<lparr>url_type = ''image/jpeg'', url_quality = js_literal (7 / 10),
        url_canvas = \<lparr>canvas_width = 300, canvas_height = 200,
                       canvas_image = (''data:a'', 0, 0, 300, 200)\<rparr>\<rparr>,
      loading = False,
      error = Some ''Failed to read the file.'',
      imageQuality = js_literal (7 / 10),
      imageDimensions = 800\<rparr>"
  by (simp add: host_reads_first_def boot_def mounted_def initial_state_def processImage_def
      processImage_start_def reader_done_def image_done_def run_effect_def deps_def
      handleImageUpload_def compressImage_def img_onload_def new_size_def)

end
